theory Spec2Isabelle
  imports Complex_Main
begin

text \<open>
  The order service of a food-delivery system: the lifecycle of an order from creation
  over payment, preparation and courier assignment to delivery or cancellation. The
  definitions follow \<open>orders.service.ts\<close> in its current revision (the one that adds
  the delivery fee and the statistics), the Prisma schema and the DTO classes. The file
  also holds an earlier revision of the service, in which \<open>createOrder\<close> knows no
  delivery fee and \<open>order_delivered\<close> carries neither total nor customer; it is
  superseded and not modelled.
\<close>

section \<open>JavaScript numbers\<close>

text \<open>
  A JavaScript number is an IEEE 754 double: a finite value, one of the two infinities,
  or NaN. A finite double is an integer significand below \<open>2^53\<close> in absolute value,
  scaled by a power of two with exponent from \<open>-1074\<close> to \<open>971\<close>. The sign of zero is
  not told apart; nothing below looks at it.
\<close>

datatype number = Num real | Infinity | NegInfinity | NaN

definition is_double :: "real \<Rightarrow> bool" where
  "is_double x =
     (\<exists>(m::int) (k::nat). \<bar>m\<bar> < 2 ^ 53 \<and> k \<le> 2045 \<and> x = of_int m * 2 ^ k / 2 ^ 1074)"

text \<open>
  Every arithmetic operation yields the exact result rounded to the nearest double, ties
  to the even significand, and an infinity beyond the largest double. For a magnitude
  \<open>y\<close> in units of \<open>2^-1074\<close>, \<open>ulp_exp\<close> searches the exponent \<open>k\<close> of the spacing of
  the doubles around it: the least one with \<open>y < 2^(53+k)\<close>, at most 2045.
\<close>

fun ulp_exp :: "real \<Rightarrow> nat \<Rightarrow> nat \<Rightarrow> nat" where
  "ulp_exp y k 0 = k"
| "ulp_exp y k (Suc fuel) = (if y < 2 ^ (53 + k) then k else ulp_exp y (Suc k) fuel)"

definition round_half_even :: "real \<Rightarrow> int" where
  "round_half_even q =
     (let f = \<lfloor>q\<rfloor>; d = q - of_int f
      in if d < 1 / 2 then f else if 1 / 2 < d then f + 1 else if even f then f else f + 1)"

definition js_round :: "real \<Rightarrow> number" where
  "js_round x =
     (let y = \<bar>x\<bar> * 2 ^ 1074;
          k = ulp_exp y 0 2045;
          n = round_half_even (y / 2 ^ k)
      in if 2 ^ 53 \<le> n \<and> k = 2045
         then (if x < 0 then NegInfinity else Infinity)
         else Num (sgn x * (of_int n * 2 ^ k / 2 ^ 1074)))"

text \<open>A number is well formed when its finite value is a double.\<close>

definition is_number :: "number \<Rightarrow> bool" where
  "is_number x = (case x of Num v \<Rightarrow> is_double v | _ \<Rightarrow> True)"

text \<open>The operators \<open>+\<close> and \<open>*\<close> on numbers.\<close>

definition sign_inf :: "bool \<Rightarrow> number" where
  "sign_inf negative = (if negative then NegInfinity else Infinity)"

fun js_add :: "number \<Rightarrow> number \<Rightarrow> number" where
  "js_add (Num a) (Num b) = js_round (a + b)"
| "js_add NaN b = NaN"
| "js_add a NaN = NaN"
| "js_add Infinity NegInfinity = NaN"
| "js_add NegInfinity Infinity = NaN"
| "js_add Infinity b = Infinity"
| "js_add a Infinity = Infinity"
| "js_add NegInfinity b = NegInfinity"
| "js_add a NegInfinity = NegInfinity"

fun js_mul :: "number \<Rightarrow> number \<Rightarrow> number" where
  "js_mul (Num a) (Num b) = js_round (a * b)"
| "js_mul NaN b = NaN"
| "js_mul a NaN = NaN"
| "js_mul (Num a) Infinity = (if a = 0 then NaN else sign_inf (a < 0))"
| "js_mul (Num a) NegInfinity = (if a = 0 then NaN else sign_inf (0 < a))"
| "js_mul Infinity (Num b) = (if b = 0 then NaN else sign_inf (b < 0))"
| "js_mul NegInfinity (Num b) = (if b = 0 then NaN else sign_inf (0 < b))"
| "js_mul Infinity Infinity = Infinity"
| "js_mul Infinity NegInfinity = NegInfinity"
| "js_mul NegInfinity Infinity = NegInfinity"
| "js_mul NegInfinity NegInfinity = Infinity"

text \<open>\<open>Math.floor\<close>: exact on a finite number, the identity on the others.\<close>

fun Math_floor :: "number \<Rightarrow> number" where
  "Math_floor (Num x) = Num (of_int \<lfloor>x\<rfloor>)"
| "Math_floor x = x"

text \<open>
  The decimal digits of a natural number, most significant first, and
  \<open>Number.prototype.toString\<close> on a number whose value is an integer below \<open>10^21\<close> in
  magnitude, an infinity or NaN. (A fraction or a larger integer prints in other forms;
  the result of \<open>Math.floor\<close> in \<open>generatePin\<close> is neither.)
\<close>

definition digit_char :: "nat \<Rightarrow> char" where
  "digit_char d = ''0123456789'' ! d"

fun toString :: "nat \<Rightarrow> string" where
  "toString n = (if n < 10 then [digit_char n] else toString (n div 10) @ [digit_char (n mod 10)])"

declare toString.simps [simp del]

fun number_toString :: "number \<Rightarrow> string" where
  "number_toString (Num x) =
     (if x < 0 then CHR ''-'' # toString (nat \<lfloor>- x\<rfloor>) else toString (nat \<lfloor>x\<rfloor>))"
| "number_toString Infinity = ''Infinity''"
| "number_toString NegInfinity = ''-Infinity''"
| "number_toString NaN = ''NaN''"

section \<open>Data model (the Prisma schema and the DTOs)\<close>

text \<open>
  The enum \<open>OrderStatus\<close> of the schema. In the service the enum values are the strings of
  the same spelling; \<open>status_name\<close> is that string, as a template literal prints it.
\<close>

datatype OrderStatus =
    PENDING
  | CONFIRMED
  | PREPARING
  | READY_FOR_DELIVERY
  | OUT_FOR_DELIVERY
  | DELIVERED
  | CANCELLED
  | FAILED

fun status_name :: "OrderStatus \<Rightarrow> string" where
  "status_name PENDING = ''PENDING''"
| "status_name CONFIRMED = ''CONFIRMED''"
| "status_name PREPARING = ''PREPARING''"
| "status_name READY_FOR_DELIVERY = ''READY_FOR_DELIVERY''"
| "status_name OUT_FOR_DELIVERY = ''OUT_FOR_DELIVERY''"
| "status_name DELIVERED = ''DELIVERED''"
| "status_name CANCELLED = ''CANCELLED''"
| "status_name FAILED = ''FAILED''"

text \<open>
  \<open>Float\<close> columns and the \<open>number\<close> fields of the DTOs are doubles (\<open>number\<close> above),
  \<open>Int\<close> columns are integers. Identifiers (\<open>ObjectId\<close>, UUID) are strings. The \<open>date\<close>, \<open>createdAt\<close> and \<open>updatedAt\<close>
  columns and the generated ids of items and receipts are read by none of the operations
  below and are left out.
\<close>

record OrderItem =
  dishId :: string
  name :: string
  quantity :: int
  price :: number

record Order =
  oid :: string
  totalAmount :: number
  status :: OrderStatus
  deliveryTime :: int
  paid :: bool
  stripeChargeId :: "string option"
  restaurantId :: string
  restaurantName :: string
  customerId :: string
  pin_code :: string
  courierId :: string
  items :: "OrderItem list"

record OrderReceipt =
  orderId :: string
  receiptUrl :: string

record CreateOrderDto =
  dto_customerId :: string
  dto_restaurantId :: string
  dto_restaurantName :: string
  dto_items :: "OrderItem list"
  deliveryFee :: number
  useLoyaltyPoints :: bool

record PaidOrderDto =
  stripePaymentId :: string
  paid_orderId :: string
  paid_receiptUrl :: string

section \<open>Events, log lines, errors and the state\<close>

text \<open>One constructor for each event name passed to \<open>client.emit\<close>, with its payload.\<close>

datatype event =
    order_created CreateOrderDto string
  | order_status_updated string string OrderStatus
  | order_ready_for_delivery string string string string "OrderItem list"
  | order_paid Order
  | courier_assigned Order string string
  | order_delivered string string string number string

datatype log_level = LOG | ERROR

text \<open>A line written by \<open>LOGGER\<close>: level, message, and the order id the call is about.\<close>

datatype log_line = LogLine log_level string string

text \<open>
  What a service call can end in instead of a value: an \<open>RpcException\<close> with its message
  and HTTP status, the rejection of a Prisma write because no record matches \<open>where\<close>
  (\<open>RecordNotFound\<close>) or because a unique index would be violated
  (\<open>UniqueConstraintFailed\<close>), and the \<open>TypeError\<close> of reading a property of \<open>null\<close>.
\<close>

datatype error =
    RpcException string nat
  | RecordNotFound
  | UniqueConstraintFailed
  | TypeError

definition NOT_FOUND :: nat where
  "NOT_FOUND = 404"

text \<open>
  The state the service works on: the \<open>Order\<close> collection keyed by id, the
  \<open>OrderReceipt\<close> collection, the events emitted so far and the log.
\<close>

record state =
  orders :: "string \<rightharpoonup> Order"
  receipts :: "OrderReceipt list"
  emitted :: "event list"
  logged :: "log_line list"

definition init :: state where
  "init = \<lparr>orders = Map.empty, receipts = [], emitted = [], logged = []\<rparr>"

definition emit :: "event \<Rightarrow> state \<Rightarrow> state" where
  "emit e s = s\<lparr>emitted := emitted s @ [e]\<rparr>"

definition log_msg :: "log_level \<Rightarrow> string \<Rightarrow> string \<Rightarrow> state \<Rightarrow> state" where
  "log_msg l m a s = s\<lparr>logged := logged s @ [LogLine l m a]\<rparr>"

section \<open>The datastore client\<close>

text \<open>
  \<open>this.order.create\<close>: the datastore generates the id (\<open>@default(auto())\<close>); it is the
  argument \<open>newId\<close> here. A key that is already in the collection is rejected, as the
  index on \<open>_id\<close> does. The columns not given in \<open>data\<close> take the defaults of the schema.
\<close>

definition order_create ::
  "string \<Rightarrow> string \<Rightarrow> string \<Rightarrow> string \<Rightarrow> number \<Rightarrow> OrderItem list \<Rightarrow> state
     \<Rightarrow> (error + Order) \<times> state" where
  "order_create newId cust rest rname amount its s =
     (case orders s newId of
        Some _ \<Rightarrow> (Inl UniqueConstraintFailed, s)
      | None \<Rightarrow>
          (let ord = \<lparr>oid = newId, totalAmount = amount, status = PENDING, deliveryTime = 20,
                      paid = False, stripeChargeId = None, restaurantId = rest,
                      restaurantName = rname, customerId = cust, pin_code = [],
                      courierId = [], items = its\<rparr>
           in (Inr ord, s\<lparr>orders := (orders s)(newId \<mapsto> ord)\<rparr>)))"

text \<open>
  \<open>this.order.update\<close> with scalar \<open>data\<close>: rejects when no order has the id, otherwise
  stores the changed order and returns it.
\<close>

definition order_update ::
  "string \<Rightarrow> (Order \<Rightarrow> Order) \<Rightarrow> state \<Rightarrow> (error + Order) \<times> state" where
  "order_update i f s =
     (case orders s i of
        None \<Rightarrow> (Inl RecordNotFound, s)
      | Some ord \<Rightarrow> (Inr (f ord), s\<lparr>orders := (orders s)(i \<mapsto> f ord)\<rparr>))"

text \<open>
  \<open>this.order.update\<close> with the nested write \<open>OrderReceipt: { create: ... }\<close>. The
  schema declares \<open>OrderReceipt.orderId\<close> \<open>@unique\<close>, so a second receipt for the same
  order is rejected; a nested write is one transaction, so the order is then unchanged too.
\<close>

definition order_update_create_receipt ::
  "string \<Rightarrow> (Order \<Rightarrow> Order) \<Rightarrow> string \<Rightarrow> state \<Rightarrow> (error + Order) \<times> state" where
  "order_update_create_receipt i f url s =
     (case orders s i of
        None \<Rightarrow> (Inl RecordNotFound, s)
      | Some ord \<Rightarrow>
          if list_ex (\<lambda>r. orderId r = i) (receipts s)
          then (Inl UniqueConstraintFailed, s)
          else (Inr (f ord),
                s\<lparr>orders := (orders s)(i \<mapsto> f ord),
                  receipts := receipts s @ [\<lparr>orderId = i, receiptUrl = url\<rparr>]\<rparr>))"

section \<open>The service\<close>

text \<open>The table \<open>validTransitions\<close>, looked up by the current status.\<close>

definition validTransitions :: "(OrderStatus \<times> OrderStatus list) list" where
  "validTransitions =
     [(PENDING, [CONFIRMED, CANCELLED, FAILED]),
      (CONFIRMED, [PREPARING, CANCELLED]),
      (PREPARING, [READY_FOR_DELIVERY]),
      (READY_FOR_DELIVERY, [OUT_FOR_DELIVERY]),
      (OUT_FOR_DELIVERY, [DELIVERED, FAILED]),
      (DELIVERED, []),
      (CANCELLED, []),
      (FAILED, [])]"

text \<open>
  \<open>createOrder\<close>: the \<open>reduce\<close> over the items is a left fold from 0, each product and
  each sum a double operation. The quantity of an item is an integer (an \<open>Int\<close> column).
\<close>

definition createOrder :: "CreateOrderDto \<Rightarrow> string \<Rightarrow> state \<Rightarrow> (error + string) \<times> state" where
  "createOrder createOrderDto newId s =
     (let total_amount =
            foldl (\<lambda>sum item. js_add sum (js_mul (price item) (Num (of_int (quantity item)))))
              (Num 0) (dto_items createOrderDto);
          totalAmountWithDelivery =
            (if useLoyaltyPoints createOrderDto then total_amount
             else js_add total_amount (deliveryFee createOrderDto))
      in case order_create newId (dto_customerId createOrderDto)
                (dto_restaurantId createOrderDto) (dto_restaurantName createOrderDto)
                totalAmountWithDelivery (dto_items createOrderDto) s of
           (Inl e, s') \<Rightarrow> (Inl e, s')
         | (Inr ord, s') \<Rightarrow>
             (Inr (oid ord), emit (order_created createOrderDto (oid ord)) s'))"

text \<open>\<open>updateOrderStatus\<close>: the status is read, checked against the table, then written.\<close>

definition updateOrderStatus ::
  "string \<Rightarrow> OrderStatus \<Rightarrow> state \<Rightarrow> (error + Order) \<times> state" where
  "updateOrderStatus i newStatus s =
     (case orders s i of
        None \<Rightarrow> (Inl (RpcException ''Order not found'' NOT_FOUND), s)
      | Some ord \<Rightarrow>
          (let currentStatus = status ord in
           if (case map_of validTransitions currentStatus of
                 None \<Rightarrow> True
               | Some allowedStatuses \<Rightarrow> newStatus \<notin> set allowedStatuses)
           then (Inl (RpcException
                        (''Cannot transition from '' @ status_name currentStatus
                           @ '' to '' @ status_name newStatus) NOT_FOUND), s)
           else
             (case order_update i (\<lambda>rec. rec\<lparr>status := newStatus\<rparr>) s of
                (Inl e, s') \<Rightarrow> (Inl e, s')
              | (Inr updatedOrder, s') \<Rightarrow>
                  (let s1 = emit (order_status_updated (oid updatedOrder)
                                    (restaurantId updatedOrder) (status updatedOrder)) s';
                       s2 = (if status updatedOrder = READY_FOR_DELIVERY
                             then emit (order_ready_for_delivery (oid updatedOrder)
                                          (restaurantId updatedOrder)
                                          (restaurantName updatedOrder)
                                          (customerId updatedOrder) (items updatedOrder)) s1
                             else s1)
                   in (Inr updatedOrder, s2)))))"

text \<open>\<open>findOneOrder\<close> returns the order or \<open>null\<close>, and logs which.\<close>

definition findOneOrder :: "string \<Rightarrow> state \<Rightarrow> Order option \<times> state" where
  "findOneOrder i s =
     (case orders s i of
        None \<Rightarrow> (None, log_msg ERROR ''Order not found:'' i s)
      | Some ord \<Rightarrow> (Some ord, log_msg LOG ''Order found:'' (oid ord) s))"

text \<open>
  \<open>paidOrder\<close>: the result of \<open>findOneOrder\<close> is not looked at; the update with the
  nested receipt follows whatever it was.
\<close>

definition paidOrder :: "PaidOrderDto \<Rightarrow> state \<Rightarrow> (error + unit) \<times> state" where
  "paidOrder paidOrderDto s =
     (let s1 = log_msg LOG ''Payment succeeded:'' (paid_orderId paidOrderDto) s;
          s2 = snd (findOneOrder (paid_orderId paidOrderDto) s1);
          s3 = log_msg LOG ''Order found:'' (paid_orderId paidOrderDto) s2
      in case order_update_create_receipt (paid_orderId paidOrderDto)
                (\<lambda>rec. rec\<lparr>status := CONFIRMED, paid := True,
                        stripeChargeId := Some (stripePaymentId paidOrderDto)\<rparr>)
                (paid_receiptUrl paidOrderDto) s3 of
           (Inl e, s') \<Rightarrow> (Inl e, s')
         | (Inr paidOrd, s') \<Rightarrow>
             (Inr (), emit (order_paid paidOrd)
                        (log_msg LOG ''Order paid:'' (paid_orderId paidOrderDto) s')))"

definition paymentSessionExpired :: "string \<Rightarrow> state \<Rightarrow> (error + Order) \<times> state" where
  "paymentSessionExpired i s =
     (let s1 = log_msg LOG ''Payment session expired:'' i s;
          s2 = snd (findOneOrder i s1)
      in order_update i (\<lambda>rec. rec\<lparr>status := FAILED\<rparr>) s2)"

text \<open>
  \<open>generatePin\<close>, with the value of \<open>Math.random()\<close>, a double from 0 up to but not
  including 1, as its argument.
\<close>

definition generatePin :: "real \<Rightarrow> string" where
  "generatePin random =
     number_toString (Math_floor (js_add (Num 1000) (js_mul (Num random) (Num 9000))))"

definition courierAssigned ::
  "string \<Rightarrow> string \<Rightarrow> real \<Rightarrow> state \<Rightarrow> (error + Order) \<times> state" where
  "courierAssigned i courier random s =
     (let s1 = snd (findOneOrder i s);
          pin = generatePin random
      in case order_update i (\<lambda>rec. rec\<lparr>courierId := courier, pin_code := pin\<rparr>) s1 of
           (Inl e, s') \<Rightarrow> (Inl e, s')
         | (Inr ord, s') \<Rightarrow> (Inr ord, emit (courier_assigned ord courier pin) s'))"

text \<open>
  \<open>verifyOrderPin\<close>: \<open>order.pin_code\<close> on the \<open>null\<close> of a missing order throws; the
  comparison \<open>===\<close> of two strings is equality.
\<close>

definition verifyOrderPin :: "string \<Rightarrow> string \<Rightarrow> state \<Rightarrow> (error + bool) \<times> state" where
  "verifyOrderPin i pin s =
     (case findOneOrder i s of
        (None, s1) \<Rightarrow> (Inl TypeError, s1)
      | (Some ord, s1) \<Rightarrow>
          if pin_code ord = pin
          then (case order_update i (\<lambda>rec. rec\<lparr>status := DELIVERED\<rparr>) s1 of
                  (Inl e, s') \<Rightarrow> (Inl e, s')
                | (Inr _, s') \<Rightarrow>
                    (Inr True,
                     emit (order_delivered i (courierId ord) (restaurantId ord)
                             (totalAmount ord) (customerId ord)) s'))
          else (Inr False, s1))"

definition removeOrder :: "string \<Rightarrow> state \<Rightarrow> (error + Order) \<times> state" where
  "removeOrder i s =
     (case findOneOrder i s of
        (None, s1) \<Rightarrow> (Inl (RpcException ''Order not found'' NOT_FOUND), s1)
      | (Some ord, s1) \<Rightarrow>
          (case order_update i (\<lambda>rec. rec\<lparr>status := CANCELLED\<rparr>) s1 of
             (Inl e, s') \<Rightarrow> (Inl e, s')
           | (Inr updatedOrder, s') \<Rightarrow>
               (Inr updatedOrder,
                emit (order_status_updated (oid updatedOrder) (restaurantId ord)
                        (status updatedOrder)) s')))"

section \<open>The controller\<close>

text \<open>
  The controller maps each message or event pattern to one call of the service. A
  message carries what the environment supplies to that call: the id the datastore
  generates for a new order, and the value \<open>Math.random()\<close> returns. The patterns that
  only query (pagination, statistics) leave the state as it is and are not listed.
  \<open>handle\<close> is the state after the call, whether it returned or threw.
\<close>

datatype message =
    Msg_createOrder CreateOrderDto string
  | Msg_findOneOrder string
  | Msg_updateOrderStatus string OrderStatus
  | Msg_courierAssigned string string real
  | Msg_verifyOrderPin string string
  | Msg_removeOrder string
  | Evt_payment_succeeded PaidOrderDto
  | Evt_payment_session_abandoned string
  | Evt_payment_session_expired string

fun handle :: "message \<Rightarrow> state \<Rightarrow> state" where
  "handle (Msg_createOrder d newId) s = snd (createOrder d newId s)"
| "handle (Msg_findOneOrder i) s = snd (findOneOrder i s)"
| "handle (Msg_updateOrderStatus i st) s = snd (updateOrderStatus i st s)"
| "handle (Msg_courierAssigned i c random) s = snd (courierAssigned i c random s)"
| "handle (Msg_verifyOrderPin i pin) s = snd (verifyOrderPin i pin s)"
| "handle (Msg_removeOrder i) s = snd (removeOrder i s)"
| "handle (Evt_payment_succeeded d) s = snd (paidOrder d s)"
| "handle (Evt_payment_session_abandoned i) s = snd (paymentSessionExpired i s)"
| "handle (Evt_payment_session_expired i) s = snd (paymentSessionExpired i s)"

text \<open>The state after a sequence of messages, handled one after the other.\<close>

fun run :: "message list \<Rightarrow> state \<Rightarrow> state" where
  "run [] s = s"
| "run (m # ms) s = run ms (handle m s)"

text \<open>Whether a message assigns a courier to the order \<open>i\<close>.\<close>

fun assigns_courier :: "string \<Rightarrow> message \<Rightarrow> bool" where
  "assigns_courier i (Msg_courierAssigned j c random) = (j = i)"
| "assigns_courier i m = False"

section \<open>Notions of the specification\<close>

text \<open>The table of allowed edges as the specification prints it (section 4.1).\<close>

fun spec_allowed :: "OrderStatus \<Rightarrow> OrderStatus list" where
  "spec_allowed PENDING = [CONFIRMED, CANCELLED, FAILED]"
| "spec_allowed CONFIRMED = [PREPARING, CANCELLED]"
| "spec_allowed PREPARING = [READY_FOR_DELIVERY]"
| "spec_allowed READY_FOR_DELIVERY = [OUT_FOR_DELIVERY]"
| "spec_allowed OUT_FOR_DELIVERY = [DELIVERED, FAILED]"
| "spec_allowed DELIVERED = []"
| "spec_allowed CANCELLED = []"
| "spec_allowed FAILED = []"










text \<open>The number of receipts stored for the order \<open>i\<close>, and whether there is one.\<close>

definition receipt_count :: "string \<Rightarrow> state \<Rightarrow> nat" where
  "receipt_count i s = length (filter (\<lambda>r. orderId r = i) (receipts s))"

definition has_receipt :: "string \<Rightarrow> state \<Rightarrow> bool" where
  "has_receipt i s = list_ex (\<lambda>r. orderId r = i) (receipts s)"

text \<open>
  What the class-validator decorators of \<open>CreateOrderDto.items\<close> ask for: \<open>@IsArray()\<close>,
  which every list meets, and \<open>@ValidateNested({ each: true })\<close>, that each element
  passes the validation of \<open>OrderItemDto\<close>. That class is imported from a module of its
  own; its validation is the parameter \<open>validItem\<close>.
\<close>

definition items_valid :: "(OrderItem \<Rightarrow> bool) \<Rightarrow> OrderItem list \<Rightarrow> bool" where
  "items_valid validItem its = list_all validItem its"

section \<open>Sample data\<close>

definition sample_items :: "OrderItem list" where
  "sample_items =
     [\<lparr>dishId = ''d1'', name = ''Pizza'', quantity = 2, price = Num 10\<rparr>,
      \<lparr>dishId = ''d2'', name = ''Soda'', quantity = 1, price = Num 5\<rparr>]"

definition sample_dto :: "OrderItem list \<Rightarrow> bool \<Rightarrow> CreateOrderDto" where
  "sample_dto its loyalty =
     \<lparr>dto_customerId = ''c1'', dto_restaurantId = ''r1'', dto_restaurantName = ''Roma'',
      dto_items = its, deliveryFee = Num 3, useLoyaltyPoints = loyalty\<rparr>"

definition sample_order :: "OrderStatus \<Rightarrow> string \<Rightarrow> Order" where
  "sample_order st pin =
     \<lparr>oid = ''o1'', totalAmount = Num 28, status = st, deliveryTime = 20, paid = False,
      stripeChargeId = None, restaurantId = ''r1'', restaurantName = ''Roma'',
      customerId = ''c1'', pin_code = pin, courierId = [], items = sample_items\<rparr>"

definition sample_state :: "OrderStatus \<Rightarrow> string \<Rightarrow> state" where
  "sample_state st pin = init\<lparr>orders := [''o1'' \<mapsto> sample_order st pin]\<rparr>"

definition sample_paid :: "string \<Rightarrow> PaidOrderDto" where
  "sample_paid charge =
     \<lparr>stripePaymentId = charge, paid_orderId = ''o1'', paid_receiptUrl = ''https://r/1''\<rparr>"

section \<open>Invariant of the receipt collection\<close>

text \<open>
  No two receipts belong to the same order, and the order of every receipt is stored,
  paid and has a charge reference.
\<close>

definition receipts_ok :: "state \<Rightarrow> bool" where
  "receipts_ok s =
     (distinct (map orderId (receipts s))
      \<and> list_all (\<lambda>r. case orders s (orderId r) of
                         None \<Rightarrow> False
                       | Some ord \<Rightarrow> paid ord \<and> stripeChargeId ord \<noteq> None) (receipts s))"

section \<open>Auxiliary facts\<close>

lemmas service_defs =
  createOrder_def updateOrderStatus_def findOneOrder_def paidOrder_def
  paymentSessionExpired_def courierAssigned_def verifyOrderPin_def removeOrder_def
  order_create_def order_update_def order_update_create_receipt_def
  emit_def log_msg_def Let_def

lemmas sample_defs =
  sample_items_def sample_dto_def sample_order_def sample_state_def sample_paid_def init_def

lemma validTransitions_lookup: "map_of validTransitions st = Some (spec_allowed st)"
  by (cases st) (simp_all add: validTransitions_def)

subsection \<open>The exponent search\<close>

lemma ulp_exp_bounds: "k \<le> ulp_exp y k fuel \<and> ulp_exp y k fuel \<le> k + fuel"
proof (induction fuel arbitrary: k)
  case 0
  then show ?case by simp
next
  case (Suc fuel)
  from Suc [of "Suc k"] show ?case by simp
qed

lemma ulp_exp_upper:
  "ulp_exp y k fuel < k + fuel \<Longrightarrow> y < 2 ^ (53 + ulp_exp y k fuel)"
proof (induction fuel arbitrary: k)
  case 0
  then show ?case by simp
next
  case (Suc fuel)
  show ?case
  proof (cases "y < 2 ^ (53 + k)")
    case True
    then show ?thesis by simp
  next
    case False
    with Suc.prems have "ulp_exp y (Suc k) fuel < Suc k + fuel" by simp
    from Suc.IH [OF this] False show ?thesis by simp
  qed
qed


lemma ulp_exp_le:
  "y < 2 ^ (53 + K) \<Longrightarrow> k \<le> K \<Longrightarrow> ulp_exp y k fuel \<le> K"
proof (induction fuel arbitrary: k)
  case 0
  then show ?case by simp
next
  case (Suc fuel)
  show ?case
  proof (cases "y < 2 ^ (53 + k)")
    case True
    with Suc.prems show ?thesis by simp
  next
    case False
    have "k \<noteq> K" using False Suc.prems(1) by auto
    with Suc.prems have "Suc k \<le> K" by simp
    from Suc.IH [OF Suc.prems(1) this] False show ?thesis by simp
  qed
qed

lemma ulp_exp_eq:
  assumes "y < 2 ^ (53 + K)" and "K = 0 \<or> 2 ^ (52 + K) \<le> y" and "K \<le> fuel"
  shows "ulp_exp y 0 fuel = K"
proof -
  have le: "ulp_exp y 0 fuel \<le> K" using assms(1) by (rule ulp_exp_le) simp
  show ?thesis
  proof (rule ccontr)
    assume "ulp_exp y 0 fuel \<noteq> K"
    with le have lt: "ulp_exp y 0 fuel < K" by simp
    then have "ulp_exp y 0 fuel < 0 + fuel" using assms(3) by simp
    then have "y < 2 ^ (53 + ulp_exp y 0 fuel)" by (rule ulp_exp_upper)
    also have "(2::real) ^ (53 + ulp_exp y 0 fuel) \<le> 2 ^ (52 + K)"
      using lt by (intro power_increasing) simp_all
    finally have "y < 2 ^ (52 + K)" .
    with assms(2) lt show False by simp
  qed
qed

subsection \<open>Rounding to the nearest integer\<close>

lemma round_half_even_cases:
  "(round_half_even q = \<lfloor>q\<rfloor> \<and> q - of_int \<lfloor>q\<rfloor> \<le> 1 / 2)
   \<or> (round_half_even q = \<lfloor>q\<rfloor> + 1 \<and> 1 / 2 \<le> q - of_int \<lfloor>q\<rfloor>)"
  by (simp add: round_half_even_def Let_def)


lemma round_half_even_int: "round_half_even (of_int n) = n"
  by (simp add: round_half_even_def)

lemma round_half_even_ge:
  assumes "of_int N \<le> q"
  shows "N \<le> round_half_even q"
proof -
  from assms have "N \<le> \<lfloor>q\<rfloor>" by (simp add: le_floor_iff)
  with round_half_even_cases [of q] show ?thesis by auto
qed


subsection \<open>Rounding a real to a double\<close>

lemma js_round_finite:
  assumes "y = \<bar>x\<bar> * 2 ^ 1074" and "k = ulp_exp y 0 2045"
    and "n = round_half_even (y / 2 ^ k)" and "k \<noteq> 2045 \<or> n < 2 ^ 53"
  shows "js_round x = Num (sgn x * (of_int n * 2 ^ k / 2 ^ 1074))"
proof -
  from assms(4) have "\<not> (2 ^ 53 \<le> n \<and> k = 2045)" by auto
  then show ?thesis
    unfolding js_round_def Let_def assms(1-3) [symmetric] by (rule if_not_P)
qed


lemma abs_int_less_real:
  fixes m :: int
  assumes "\<bar>m\<bar> < 2 ^ 53"
  shows "\<bar>of_int m :: real\<bar> < 2 ^ 53"
proof -
  from assms have "(of_int \<bar>m\<bar> :: real) < of_int (2 ^ 53)" by (simp only: of_int_less_iff)
  then show ?thesis by simp
qed

lemma js_round_exact:
  assumes "is_double x"
  shows "js_round x = Num x"
proof -
  from assms obtain m :: int and j :: nat where
    m: "\<bar>m\<bar> < 2 ^ 53" and j: "j \<le> 2045" and x: "x = of_int m * 2 ^ j / 2 ^ 1074"
    unfolding is_double_def by blast
  define y where "y = \<bar>x\<bar> * 2 ^ 1074"
  define k where "k = ulp_exp y 0 2045"
  define n where "n = round_half_even (y / 2 ^ k)"
  have y: "y = \<bar>of_int m :: real\<bar> * 2 ^ j"
    unfolding y_def x by (simp add: abs_mult)
  have "y < 2 ^ 53 * 2 ^ j"
    unfolding y using abs_int_less_real [OF m] by (intro mult_strict_right_mono) simp_all
  then have ylt: "y < 2 ^ (53 + j)" by (simp add: power_add)
  have kj: "k \<le> j" unfolding k_def using ylt by (rule ulp_exp_le) simp
  then obtain d where d: "j = k + d" using le_Suc_ex by blast
  have q: "y / 2 ^ k = of_int (\<bar>m\<bar> * 2 ^ d)"
    unfolding y d by (simp add: power_add)
  have n: "n = \<bar>m\<bar> * 2 ^ d" by (simp only: n_def q round_half_even_int)
  have fin: "k \<noteq> 2045 \<or> n < 2 ^ 53"
  proof (cases "k = 2045")
    case True
    with kj j d have "d = 0" by simp
    with n m show ?thesis by simp
  next
    case False
    then show ?thesis by simp
  qed
  have "of_int n * 2 ^ k = y"
    unfolding n y d by (simp add: power_add)
  then have "of_int n * 2 ^ k / 2 ^ 1074 = \<bar>x\<bar>"
    unfolding y_def by simp
  then have "sgn x * (of_int n * 2 ^ k / 2 ^ 1074) = x"
    by (simp only: sgn_mult_abs)
  with js_round_finite [OF y_def k_def n_def fin] show ?thesis by simp
qed


subsection \<open>Decimal strings\<close>

lemma toString_small: "n < 10 \<Longrightarrow> toString n = [digit_char n]"
  by (subst toString.simps) simp

lemma toString_large: "10 \<le> n \<Longrightarrow> toString n = toString (n div 10) @ [digit_char (n mod 10)]"
  by (subst toString.simps) simp


lemma toString_four:
  assumes "1000 \<le> n" "n \<le> 9999"
  shows "toString n = [digit_char (n div 10 div 10 div 10), digit_char (n div 10 div 10 mod 10),
                       digit_char (n div 10 mod 10), digit_char (n mod 10)]"
proof -
  have a: "toString n = toString (n div 10) @ [digit_char (n mod 10)]"
    using assms by (intro toString_large) simp
  have b: "toString (n div 10) = toString (n div 10 div 10) @ [digit_char (n div 10 mod 10)]"
    using assms by (intro toString_large) simp
  have c: "toString (n div 10 div 10) = toString (n div 10 div 10 div 10) @ [digit_char (n div 10 div 10 mod 10)]"
    using assms by (intro toString_large) simp
  have d: "toString (n div 10 div 10 div 10) = [digit_char (n div 10 div 10 div 10)]"
    using assms by (intro toString_small) simp
  show ?thesis
    by (simp only: a b c d append.simps)
qed


subsection \<open>The grid of the doubles\<close>




lemma is_double_int:
  fixes n :: int
  assumes "\<bar>n\<bar> < 2 ^ 53"
  shows "is_double (of_int n)"
  unfolding is_double_def
  using assms by (intro exI [of _ n] exI [of _ 1074]) simp

lemma is_double_scaled:
  fixes n :: int and j :: nat
  assumes "\<bar>n\<bar> < 2 ^ 53" and "j \<le> 1074"
  shows "is_double (of_int n / 2 ^ j)"
proof -
  from assms(2) obtain d where d: "1074 = j + d" using le_Suc_ex by blast
  have "of_int n / (2::real) ^ j = of_int n * 2 ^ d / 2 ^ (j + d)"
    by (simp add: power_add)
  moreover have "d \<le> 2045" using d by simp
  ultimately show ?thesis
    unfolding is_double_def using assms(1) d
    by (intro exI [of _ n] exI [of _ d]) simp
qed



lemma is_double_numeral: "(numeral w :: int) < 2 ^ 53 \<Longrightarrow> is_double (numeral w)"
  using is_double_int [of "numeral w"] by simp

lemma is_double_0: "is_double 0"
  using is_double_int [of 0] by simp

lemma is_double_1: "is_double 1"
  using is_double_int [of 1] by simp

lemma js_round_numeral: "(numeral w :: int) < 2 ^ 53 \<Longrightarrow> js_round (numeral w) = Num (numeral w)"
  by (rule js_round_exact) (rule is_double_numeral)

lemma js_round_0: "js_round 0 = Num 0"
  using is_double_0 by (rule js_round_exact)

lemma js_round_1: "js_round 1 = Num 1"
  using is_double_1 by (rule js_round_exact)

lemmas js_simps = js_round_numeral js_round_0 js_round_1

subsection \<open>The number behind the PIN\<close>




subsection \<open>The total of the items\<close>




lemma is_number_add_0:
  assumes "is_number x"
  shows "js_add (Num 0) x = x"
proof (cases x)
  case (Num v)
  with assms have "is_double v" by (simp add: is_number_def)
  then show ?thesis by (simp add: Num js_round_exact)
qed simp_all

subsection \<open>Sample roundings\<close>

lemma js_round_eval:
  assumes "0 < x" and "x * 2 ^ 1074 < 2 ^ (53 + K)" and "K = 0 \<or> 2 ^ (52 + K) \<le> x * 2 ^ 1074"
    and "K < 2045" and "round_half_even (x * 2 ^ 1074 / 2 ^ K) = n"
  shows "js_round x = Num (of_int n * 2 ^ K / 2 ^ 1074)"
proof -
  define y where "y = \<bar>x\<bar> * 2 ^ 1074"
  define k where "k = ulp_exp y 0 2045"
  define m where "m = round_half_even (y / 2 ^ k)"
  have yx: "y = x * 2 ^ 1074" unfolding y_def using assms(1) by simp
  have k: "k = K" unfolding k_def yx using assms(2,3,4) by (intro ulp_exp_eq) simp_all
  have m: "m = n" unfolding m_def k yx by (rule assms(5))
  have "k \<noteq> 2045 \<or> m < 2 ^ 53" using k assms(4) by simp
  from js_round_finite [OF y_def k_def m_def this] assms(1) show ?thesis
    by (simp add: k m)
qed

lemma js_round_overflow:
  assumes "2 ^ 1024 \<le> x"
  shows "js_round x = Infinity"
proof -
  define y where "y = \<bar>x\<bar> * 2 ^ 1074"
  define k where "k = ulp_exp y 0 2045"
  have x0: "0 < x" using assms by (rule less_le_trans [rotated]) simp
  have yx: "y = x * 2 ^ 1074" unfolding y_def using x0 by simp
  have "2 ^ 1024 * 2 ^ 1074 \<le> y" unfolding yx using assms by (intro mult_right_mono) simp_all
  then have big: "2 ^ (53 + 2045) \<le> y" by (simp add: power_add [symmetric])
  have k: "k = 2045"
  proof (rule ccontr)
    assume "k \<noteq> 2045"
    with ulp_exp_bounds [of 0 y 2045] have lt: "k < 0 + 2045" by (simp add: k_def)
    then have "y < 2 ^ (53 + k)" unfolding k_def by (rule ulp_exp_upper)
    also have "(2::real) ^ (53 + k) \<le> 2 ^ (53 + 2045)"
      using lt by (intro power_increasing) simp_all
    finally show False using big by simp
  qed
  have "(of_int (2 ^ 53) :: real) = 2 ^ (53 + 2045) / 2 ^ 2045" by (simp add: power_add)
  also have "\<dots> \<le> y / 2 ^ 2045" using big by (intro divide_right_mono) simp_all
  finally have "2 ^ 53 \<le> round_half_even (y / 2 ^ 2045)" by (rule round_half_even_ge)
  then show ?thesis
    unfolding js_round_def Let_def y_def [symmetric] k_def [symmetric] k using x0 by simp
qed

lemma tenth_times_three:
  "js_mul (Num (3602879701896397 / 2 ^ 55)) (Num 3) = Num (5404319552844596 / 2 ^ 54)"
proof -
  have "round_half_even ((3602879701896397 / 2 ^ 55 * 3) * 2 ^ 1074 / 2 ^ 1020)
          = 5404319552844596"
    by (simp add: round_half_even_def)
  from js_round_eval [OF _ _ _ _ this] show ?thesis by simp
qed

subsection \<open>What one message changes\<close>

lemma handle_keeps_order:
  assumes "orders s i = Some ord"
  shows "\<exists>ord'. orders (handle m s) i = Some ord'
           \<and> (paid ord \<longrightarrow> paid ord')
           \<and> (stripeChargeId ord \<noteq> None \<longrightarrow> stripeChargeId ord' \<noteq> None)
           \<and> (\<not> assigns_courier i m \<longrightarrow>
                pin_code ord' = pin_code ord \<and> courierId ord' = courierId ord)"
  using assms
  by (cases m) (auto simp: service_defs split: option.splits if_splits)

lemma handle_new_order:
  assumes "orders s i = None" and "orders (handle m s) i = Some ord'"
  shows "pin_code ord' = [] \<and> courierId ord' = []"
  using assms
  by (cases m) (auto simp: service_defs split: option.splits if_splits)

lemma handle_receipts:
  "receipts (handle m s) = receipts s
   \<or> (\<exists>d ord. m = Evt_payment_succeeded d
         \<and> \<not> has_receipt (paid_orderId d) s
         \<and> receipts (handle m s)
             = receipts s @ [\<lparr>orderId = paid_orderId d, receiptUrl = paid_receiptUrl d\<rparr>]
         \<and> orders (handle m s) (paid_orderId d) = Some ord
         \<and> paid ord \<and> stripeChargeId ord \<noteq> None)"
  by (cases m) (auto simp: service_defs has_receipt_def split: option.splits if_splits)

lemma receipts_ok_init: "receipts_ok init"
  by (simp add: receipts_ok_def init_def)

lemma handle_receipts_ok:
  assumes "receipts_ok s"
  shows "receipts_ok (handle m s)"
proof -
  have old: "list_all (\<lambda>r. case orders (handle m s) (orderId r) of
                         None \<Rightarrow> False
                       | Some ord \<Rightarrow> paid ord \<and> stripeChargeId ord \<noteq> None) (receipts s)"
    unfolding list_all_iff
  proof
    fix r assume "r \<in> set (receipts s)"
    with assms obtain ord where o: "orders s (orderId r) = Some ord" "paid ord"
        "stripeChargeId ord \<noteq> None"
      by (auto simp: receipts_ok_def list_all_iff split: option.splits)
    from handle_keeps_order [OF o(1), of m] o(2,3)
    show "case orders (handle m s) (orderId r) of
            None \<Rightarrow> False | Some ord \<Rightarrow> paid ord \<and> stripeChargeId ord \<noteq> None"
      by auto
  qed
  from handle_receipts [of m s] show ?thesis
  proof
    assume "receipts (handle m s) = receipts s"
    with assms old show ?thesis by (simp add: receipts_ok_def)
  next
    assume "\<exists>d ord. m = Evt_payment_succeeded d
         \<and> \<not> has_receipt (paid_orderId d) s
         \<and> receipts (handle m s)
             = receipts s @ [\<lparr>orderId = paid_orderId d, receiptUrl = paid_receiptUrl d\<rparr>]
         \<and> orders (handle m s) (paid_orderId d) = Some ord
         \<and> paid ord \<and> stripeChargeId ord \<noteq> None"
    then obtain d ord where
      m: "m = Evt_payment_succeeded d"
      and n: "\<not> has_receipt (paid_orderId d) s"
      and r: "receipts (handle m s)
             = receipts s @ [\<lparr>orderId = paid_orderId d, receiptUrl = paid_receiptUrl d\<rparr>]"
      and o: "orders (handle m s) (paid_orderId d) = Some ord" "paid ord"
             "stripeChargeId ord \<noteq> None"
      by blast
    from n have "paid_orderId d \<notin> orderId ` set (receipts s)"
      by (auto simp: has_receipt_def list_ex_iff)
    with assms old r o show ?thesis
      by (simp add: receipts_ok_def)
  qed
qed

lemma run_receipts_ok: "receipts_ok s \<Longrightarrow> receipts_ok (run ms s)"
  by (induction ms arbitrary: s) (simp_all add: handle_receipts_ok)

lemma distinct_count_le_1:
  "distinct (map f xs) \<Longrightarrow> length (filter (\<lambda>x. f x = i) xs) \<le> 1"
  by (induction xs) (auto simp: filter_empty_conv image_iff)

lemma count_present:
  "list_ex (\<lambda>x. f x = i) xs \<Longrightarrow> 1 \<le> length (filter (\<lambda>x. f x = i) xs)"
  by (induction xs) auto

lemma count_absent:
  "\<not> list_ex (\<lambda>x. f x = i) xs \<Longrightarrow> length (filter (\<lambda>x. f x = i) xs) = 0"
  by (induction xs) auto

lemma paidOrder_first:
  assumes "orders s i = Some ord" and "\<not> has_receipt i s" and "paid_orderId d = i"
  shows "fst (paidOrder d s) = Inr ()"
    and "orders (snd (paidOrder d s))
           = (orders s)(i \<mapsto> ord\<lparr>status := CONFIRMED, paid := True,
                                   stripeChargeId := Some (stripePaymentId d)\<rparr>)"
    and "receipts (snd (paidOrder d s))
           = receipts s @ [\<lparr>orderId = i, receiptUrl = paid_receiptUrl d\<rparr>]"
  using assms by (simp_all add: service_defs has_receipt_def)

lemma paidOrder_again:
  assumes "orders s i = Some ord" and "has_receipt i s" and "paid_orderId d = i"
  shows "fst (paidOrder d s) = Inl UniqueConstraintFailed"
    and "orders (snd (paidOrder d s)) = orders s"
    and "receipts (snd (paidOrder d s)) = receipts s"
    and "emitted (snd (paidOrder d s)) = emitted s"
  using assms by (simp_all add: service_defs has_receipt_def)

lemma run_unassigned:
  assumes "\<forall>ord. orders s i = Some ord \<longrightarrow> pin_code ord = [] \<and> courierId ord = []"
    and "\<not> list_ex (assigns_courier i) ms"
    and "orders (run ms s) i = Some ord'"
  shows "pin_code ord' = [] \<and> courierId ord' = []"
  using assms
proof (induction ms arbitrary: s)
  case Nil
  then show ?case by simp
next
  case (Cons m ms)
  have "\<forall>ord. orders (handle m s) i = Some ord \<longrightarrow> pin_code ord = [] \<and> courierId ord = []"
  proof (intro allI impI)
    fix ord1 assume h: "orders (handle m s) i = Some ord1"
    show "pin_code ord1 = [] \<and> courierId ord1 = []"
    proof (cases "orders s i")
      case None
      from None h show ?thesis by (rule handle_new_order)
    next
      case (Some ord0)
      from handle_keeps_order [OF Some, of m] h Cons.prems(1,2) Some
      show ?thesis by auto
    qed
  qed
  with Cons show ?case by simp
qed

lemma missing_order_rejected:
  assumes "orders s i = None"
  shows "paid_orderId d = i \<Longrightarrow>
            paidOrder d s =
              (Inl RecordNotFound,
               s\<lparr>logged := logged s @ [LogLine LOG ''Payment succeeded:'' i,
                                        LogLine ERROR ''Order not found:'' i,
                                        LogLine LOG ''Order found:'' i]\<rparr>)"
    and "courierAssigned i c random s =
           (Inl RecordNotFound, s\<lparr>logged := logged s @ [LogLine ERROR ''Order not found:'' i]\<rparr>)"
  using assms
  by (simp_all add: service_defs)


lemma product_overflow: "js_mul (Num (2 ^ 1023)) (Num 2) = Infinity"
proof -
  have "(2::real) ^ 1024 \<le> 2 ^ 1023 * 2" by simp
  then have "js_round (2 ^ 1023 * 2) = Infinity" by (rule js_round_overflow)
  then show ?thesis by (simp only: js_mul.simps)
qed

lemma pin_rounded_up: "generatePin (8198552921648689 / 2 ^ 66) = ''1001''"
proof -
  have "round_half_even ((8198552921648689 / 2 ^ 66 * 9000) * 2 ^ 1074 / 2 ^ 1021)
          = 9007199254740991"
    by (simp add: round_half_even_def)
  from js_round_eval [OF _ _ _ _ this]
  have p: "js_round (8198552921648689 / 2 ^ 66 * 9000) = Num (9007199254740991 / 2 ^ 53)"
    by simp
  have "round_half_even ((1000 + 9007199254740991 / 2 ^ 53) * 2 ^ 1074 / 2 ^ 1031)
          = 8804889115230208"
    by (simp add: round_half_even_def)
  from js_round_eval [OF _ _ _ _ this]
  have q: "js_round (1000 + 9007199254740991 / 2 ^ 53) = Num 1001"
    by simp
  have "js_add (Num 1000) (js_mul (Num (8198552921648689 / 2 ^ 66)) (Num 9000)) = Num 1001"
    by (simp only: js_mul.simps js_add.simps p q)
  then show ?thesis
    unfolding generatePin_def by (simp add: toString_four digit_char_def)
qed

lemma createOrder_tenth_times_three:
  "map_option totalAmount
     (orders (snd (createOrder
        (sample_dto [\<lparr>dishId = ''d1'', name = ''Tea'', quantity = 3,
                       price = Num (3602879701896397 / 2 ^ 55)\<rparr>] True) ''o1'' init)) ''o1'')
     = Some (Num (5404319552844596 / 2 ^ 54))"
proof -
  have "is_double (5404319552844596 / 2 ^ 54)"
    using is_double_scaled [of 5404319552844596 54] by simp
  then have "js_round (5404319552844596 / 2 ^ 54) = Num (5404319552844596 / 2 ^ 54)"
    by (rule js_round_exact)
  with tenth_times_three show ?thesis
    by (simp add: createOrder_def order_create_def emit_def Let_def sample_defs)
qed

lemma createOrder_overflow:
  "map_option totalAmount
     (orders (snd (createOrder
        (sample_dto [\<lparr>dishId = ''d1'', name = ''Tea'', quantity = 2,
                       price = Num (2 ^ 1023)\<rparr>] True) ''o1'' init)) ''o1'')
     = Some Infinity"
  using product_overflow
  by (simp add: createOrder_def order_create_def emit_def Let_def sample_defs)


section \<open>The claims\<close>

subsection \<open>C1: status transitions follow the table\<close>

text \<open>
  Claim C1. For an existing order, \<open>updateOrderStatus\<close> with a target status that is not
  among the allowed successors of the current status fails with the exception whose
  message is "Cannot transition from (current) to (target)" and returns the state as it
  was; this is so for every target when the current status is \<open>DELIVERED\<close>, \<open>CANCELLED\<close>
  or \<open>FAILED\<close>. With a target among the allowed successors the order is stored with the
  new status.
\<close>

theorem updateOrderStatus_edges:
  assumes "orders s i = Some ord"
  shows "(newStatus \<notin> set (spec_allowed (status ord)) \<longrightarrow>
            updateOrderStatus i newStatus s =
              (Inl (RpcException (''Cannot transition from '' @ status_name (status ord)
                                    @ '' to '' @ status_name newStatus) NOT_FOUND), s))
       \<and> (status ord \<in> {DELIVERED, CANCELLED, FAILED} \<longrightarrow>
            newStatus \<notin> set (spec_allowed (status ord)))
       \<and> (newStatus \<in> set (spec_allowed (status ord)) \<longrightarrow>
            fst (updateOrderStatus i newStatus s) = Inr (ord\<lparr>status := newStatus\<rparr>)
          \<and> orders (snd (updateOrderStatus i newStatus s))
              = (orders s)(i \<mapsto> ord\<lparr>status := newStatus\<rparr>))"
  using assms
  by (auto simp: updateOrderStatus_def validTransitions_lookup order_update_def emit_def Let_def)

theorem updateOrderStatus_edges_witness:
  "updateOrderStatus ''o1'' DELIVERED (sample_state PENDING []) =
     (Inl (RpcException ''Cannot transition from PENDING to DELIVERED'' NOT_FOUND),
      sample_state PENDING [])
   \<and> updateOrderStatus ''o1'' PENDING (sample_state CANCELLED []) =
     (Inl (RpcException ''Cannot transition from CANCELLED to PENDING'' NOT_FOUND),
      sample_state CANCELLED [])
   \<and> map_option status (orders (snd (updateOrderStatus ''o1'' CONFIRMED (sample_state PENDING []))) ''o1'')
       = Some CONFIRMED"
  using updateOrderStatus_edges [of "sample_state PENDING []" "''o1''" "sample_order PENDING []" DELIVERED]
        updateOrderStatus_edges [of "sample_state CANCELLED []" "''o1''" "sample_order CANCELLED []" PENDING]
        updateOrderStatus_edges [of "sample_state PENDING []" "''o1''" "sample_order PENDING []" CONFIRMED]
  by (simp add: sample_defs)

subsection \<open>C2: the sample order\<close>

text \<open>
  Claim C2, as amended. For items of price 10 with quantity 2 and price 5 with quantity 1
  and a delivery fee of 3, \<open>createOrder\<close> stores the total 28 when \<open>useLoyaltyPoints\<close> is
  false and 25 when it is true: the items add up to 25 and the fee is added, not taken
  off.
\<close>

theorem createOrder_sample_totals:
  assumes "orders s newId = None"
    and "map (\<lambda>it. (price it, quantity it)) (dto_items d) = [(Num 10, 2), (Num 5, 1)]"
    and "deliveryFee d = Num 3"
  shows "map_option totalAmount (orders (snd (createOrder d newId s)) newId)
           = Some (Num (if useLoyaltyPoints d then 25 else 28))"
proof -
  from assms(2) obtain a b where its: "dto_items d = [a, b]"
    and a: "price a = Num 10" "quantity a = 2" and b: "price b = Num 5" "quantity b = 1"
    by (auto simp: map_eq_Cons_conv)
  from assms(1) show ?thesis
    by (simp add: createOrder_def order_create_def emit_def Let_def its a b assms(3) js_simps)
qed

theorem createOrder_sample_totals_witness:
  "map_option totalAmount (orders (snd (createOrder (sample_dto sample_items False) ''o1'' init)) ''o1'') = Some (Num 28)
   \<and> map_option totalAmount (orders (snd (createOrder (sample_dto sample_items True) ''o1'' init)) ''o1'') = Some (Num 25)"
  using createOrder_sample_totals [of init "''o1''" "sample_dto sample_items False"]
        createOrder_sample_totals [of init "''o1''" "sample_dto sample_items True"]
  by (simp add: sample_defs)

text \<open>The totals 25 and 22 of the claim as worded are not the ones stored.\<close>

theorem createOrder_sample_not_25_22:
  "map_option totalAmount (orders (snd (createOrder (sample_dto sample_items False) ''o1'' init)) ''o1'') \<noteq> Some (Num 25)
   \<and> map_option totalAmount (orders (snd (createOrder (sample_dto sample_items True) ''o1'' init)) ''o1'') \<noteq> Some (Num 22)"
  by (simp add: service_defs sample_defs js_simps)

subsection \<open>C3: payment and courier assignment for a missing order\<close>

text \<open>
  Claim C3 asks that \<open>paidOrder\<close> and \<open>courierAssigned\<close>, given an id that no order has,
  log the missing order and go on without a failure. The service does not do that. Both
  call \<open>findOneOrder\<close>, which logs that the order was not found, and drop its result
  (\<open>paidOrder\<close> even logs "Order found:" next); the update of the datastore that follows
  rejects because no record matches, and nothing catches the rejection. \<open>removeOrder\<close>
  beside them does look at the result. On the empty store both calls end in the
  rejection, with the log lines as the only change:
\<close>

theorem missing_order_failure_surfaces:
  "paidOrder (sample_paid ''ch_1'') init =
     (Inl RecordNotFound,
      init\<lparr>logged := [LogLine LOG ''Payment succeeded:'' ''o1'',
                       LogLine ERROR ''Order not found:'' ''o1'',
                       LogLine LOG ''Order found:'' ''o1'']\<rparr>)
   \<and> courierAssigned ''o1'' ''k1'' 0 init =
       (Inl RecordNotFound, init\<lparr>logged := [LogLine ERROR ''Order not found:'' ''o1'']\<rparr>)"
  by (simp add: service_defs sample_defs)

subsection \<open>C4: one receipt for each order\<close>

text \<open>
  Claim C4. After any sequence of messages no order has more than one receipt. For an
  order stored after such a sequence, two calls of \<open>paidOrder\<close> with its id leave exactly
  one receipt for it, \<open>paid\<close> true, and \<open>stripeChargeId\<close> the charge reference that was
  applied first: the one of the first call, or the one already stored when the order had
  a receipt before.
\<close>

theorem paidOrder_twice_one_receipt:
  assumes "s = run ms init" and "orders s i = Some ord"
    and "paid_orderId d1 = i" and "paid_orderId d2 = i"
  shows "(\<forall>j. receipt_count j s \<le> 1)
       \<and> receipt_count i (snd (paidOrder d2 (snd (paidOrder d1 s)))) = 1
       \<and> map_option paid (orders (snd (paidOrder d2 (snd (paidOrder d1 s)))) i) = Some True
       \<and> map_option stripeChargeId (orders (snd (paidOrder d2 (snd (paidOrder d1 s)))) i)
           = Some (if has_receipt i s then stripeChargeId ord else Some (stripePaymentId d1))
       \<and> (has_receipt i s \<longrightarrow> stripeChargeId ord \<noteq> None)"
proof -
  have ok: "receipts_ok s"
    using assms(1) by (simp add: run_receipts_ok receipts_ok_init)
  then have dist: "distinct (map orderId (receipts s))"
    by (simp add: receipts_ok_def)
  have inv: "\<forall>j. receipt_count j s \<le> 1"
    unfolding receipt_count_def using dist by (intro allI distinct_count_le_1)
  let ?s1 = "snd (paidOrder d1 s)"
  let ?s2 = "snd (paidOrder d2 ?s1)"
  show ?thesis
  proof (cases "has_receipt i s")
    case True
    from ok True assms(2) have p: "paid ord" "stripeChargeId ord \<noteq> None"
      by (auto simp: receipts_ok_def has_receipt_def list_all_iff list_ex_iff)
    have s1: "orders ?s1 = orders s" "receipts ?s1 = receipts s"
      using paidOrder_again [OF assms(2) True assms(3)] by simp_all
    have h1: "has_receipt i ?s1" using True s1 by (simp add: has_receipt_def)
    have o1: "orders ?s1 i = Some ord" using s1 assms(2) by simp
    have s2: "orders ?s2 = orders s" "receipts ?s2 = receipts s"
      using paidOrder_again [OF o1 h1 assms(4)] s1 by simp_all
    have "1 \<le> receipt_count i s"
      using True count_present [of orderId i "receipts s"]
      by (simp add: receipt_count_def has_receipt_def)
    with inv have "receipt_count i s = 1" by (simp add: le_antisym)
    then have "receipt_count i ?s2 = 1" using s2 by (simp add: receipt_count_def)
    with inv p True s2 assms(2) show ?thesis by simp
  next
    case False
    let ?ord1 = "ord\<lparr>status := CONFIRMED, paid := True,
                      stripeChargeId := Some (stripePaymentId d1)\<rparr>"
    have s1: "orders ?s1 = (orders s)(i \<mapsto> ?ord1)"
        "receipts ?s1 = receipts s @ [\<lparr>orderId = i, receiptUrl = paid_receiptUrl d1\<rparr>]"
      using paidOrder_first [OF assms(2) False assms(3)] by simp_all
    have h1: "has_receipt i ?s1" using s1 by (simp add: has_receipt_def)
    have o1: "orders ?s1 i = Some ?ord1" using s1 by simp
    have s2: "orders ?s2 = orders ?s1" "receipts ?s2 = receipts ?s1"
      using paidOrder_again [OF o1 h1 assms(4)] by simp_all
    have "receipt_count i s = 0"
      using False count_absent [of orderId i "receipts s"]
      by (simp add: receipt_count_def has_receipt_def)
    then have "receipt_count i ?s2 = 1"
      using s2 s1 by (simp add: receipt_count_def)
    with inv False s2 o1 show ?thesis by simp
  qed
qed

theorem paidOrder_twice_one_receipt_witness:
  "receipt_count ''o1''
     (snd (paidOrder (sample_paid ''ch_2'') (snd (paidOrder (sample_paid ''ch_1'')
        (run [Msg_createOrder (sample_dto sample_items False) ''o1''] init))))) = 1
   \<and> map_option stripeChargeId
        (orders (snd (paidOrder (sample_paid ''ch_2'') (snd (paidOrder (sample_paid ''ch_1'')
           (run [Msg_createOrder (sample_dto sample_items False) ''o1''] init))))) ''o1'')
       = Some (Some ''ch_1'')"
  using paidOrder_twice_one_receipt
          [of "run [Msg_createOrder (sample_dto sample_items False) ''o1''] init"
              "[Msg_createOrder (sample_dto sample_items False) ''o1'']"
              "''o1''" "sample_order PENDING []" "sample_paid ''ch_1''" "sample_paid ''ch_2''"]
  by (simp add: createOrder_def order_create_def emit_def Let_def sample_defs has_receipt_def
        js_simps)

subsection \<open>C5: cancellation\<close>

text \<open>
  Claim C5. For an existing order, whatever its status, \<open>removeOrder\<close> stores the status
  \<open>CANCELLED\<close> without looking at the transition table and emits \<open>order_status_updated\<close>;
  for an id with no order it fails with the "Order not found" exception and leaves orders,
  receipts and events as they were.
\<close>

theorem removeOrder_cancels:
  "(orders s i = Some ord \<longrightarrow>
      fst (removeOrder i s) = Inr (ord\<lparr>status := CANCELLED\<rparr>)
    \<and> orders (snd (removeOrder i s)) = (orders s)(i \<mapsto> ord\<lparr>status := CANCELLED\<rparr>)
    \<and> emitted (snd (removeOrder i s))
        = emitted s @ [order_status_updated (oid ord) (restaurantId ord) CANCELLED]
    \<and> receipts (snd (removeOrder i s)) = receipts s)
 \<and> (orders s i = None \<longrightarrow>
      fst (removeOrder i s) = Inl (RpcException ''Order not found'' NOT_FOUND)
    \<and> orders (snd (removeOrder i s)) = orders s
    \<and> emitted (snd (removeOrder i s)) = emitted s
    \<and> receipts (snd (removeOrder i s)) = receipts s)"
  by (simp add: service_defs)

theorem removeOrder_cancels_witness:
  "map_option status (orders (snd (removeOrder ''o1'' (sample_state DELIVERED ''1234''))) ''o1'') = Some CANCELLED
   \<and> emitted (snd (removeOrder ''o1'' (sample_state DELIVERED ''1234'')))
       = [order_status_updated ''o1'' ''r1'' CANCELLED]
   \<and> fst (removeOrder ''o2'' (sample_state DELIVERED ''1234'')) = Inl (RpcException ''Order not found'' NOT_FOUND)
   \<and> orders (snd (removeOrder ''o2'' (sample_state DELIVERED ''1234''))) = orders (sample_state DELIVERED ''1234'')"
  using removeOrder_cancels [of "sample_state DELIVERED ''1234''" "''o1''" "sample_order DELIVERED ''1234''"]
        removeOrder_cancels [of "sample_state DELIVERED ''1234''" "''o2''"]
  by (simp add: sample_defs)

subsection \<open>C6: verification of the delivery PIN\<close>

text \<open>
  Claim C6. For an existing order, \<open>verifyOrderPin\<close> with the stored \<open>pin_code\<close> stores the
  status \<open>DELIVERED\<close>, emits one \<open>order_delivered\<close> event with the order id, courier id,
  restaurant id, total amount and customer id, and returns true; with any other string it
  returns false, and orders, receipts and events stay as they were (the lookup writes one
  log line).
\<close>

theorem verifyOrderPin_exact:
  assumes "orders s i = Some ord"
  shows "(pin = pin_code ord \<longrightarrow>
            fst (verifyOrderPin i pin s) = Inr True
          \<and> orders (snd (verifyOrderPin i pin s)) = (orders s)(i \<mapsto> ord\<lparr>status := DELIVERED\<rparr>)
          \<and> emitted (snd (verifyOrderPin i pin s))
              = emitted s @ [order_delivered i (courierId ord) (restaurantId ord)
                               (totalAmount ord) (customerId ord)]
          \<and> receipts (snd (verifyOrderPin i pin s)) = receipts s)
       \<and> (pin \<noteq> pin_code ord \<longrightarrow>
            verifyOrderPin i pin s = (Inr False, log_msg LOG ''Order found:'' (oid ord) s)
          \<and> orders (snd (verifyOrderPin i pin s)) = orders s
          \<and> emitted (snd (verifyOrderPin i pin s)) = emitted s
          \<and> receipts (snd (verifyOrderPin i pin s)) = receipts s)"
  using assms
  by (simp add: service_defs)

theorem verifyOrderPin_exact_witness:
  "fst (verifyOrderPin ''o1'' ''1234'' (sample_state OUT_FOR_DELIVERY ''1234'')) = Inr True
   \<and> map_option status
        (orders (snd (verifyOrderPin ''o1'' ''1234'' (sample_state OUT_FOR_DELIVERY ''1234''))) ''o1'')
       = Some DELIVERED
   \<and> emitted (snd (verifyOrderPin ''o1'' ''1234'' (sample_state OUT_FOR_DELIVERY ''1234'')))
       = [order_delivered ''o1'' [] ''r1'' (Num 28) ''c1'']
   \<and> fst (verifyOrderPin ''o1'' ''1235'' (sample_state OUT_FOR_DELIVERY ''1234'')) = Inr False
   \<and> orders (snd (verifyOrderPin ''o1'' ''1235'' (sample_state OUT_FOR_DELIVERY ''1234'')))
       = orders (sample_state OUT_FOR_DELIVERY ''1234'')
   \<and> emitted (snd (verifyOrderPin ''o1'' ''1235'' (sample_state OUT_FOR_DELIVERY ''1234''))) = []"
  using verifyOrderPin_exact [of "sample_state OUT_FOR_DELIVERY ''1234''" "''o1''"
          "sample_order OUT_FOR_DELIVERY ''1234''" "''1234''"]
        verifyOrderPin_exact [of "sample_state OUT_FOR_DELIVERY ''1234''" "''o1''"
          "sample_order OUT_FOR_DELIVERY ''1234''" "''1235''"]
  by (simp add: sample_defs log_msg_def)

subsection \<open>C7: the empty PIN of an order without courier\<close>

text \<open>
  Claim C7. An order stored after a sequence of messages none of which assigns a courier
  to it has the empty \<open>pin_code\<close> (and the empty \<open>courierId\<close>) of the schema, so
  \<open>verifyOrderPin\<close> with the empty string returns true, stores the status \<open>DELIVERED\<close>
  whatever the status was, and emits \<open>order_delivered\<close>.
\<close>

theorem verifyOrderPin_unassigned:
  assumes "s = run ms init" and "\<not> list_ex (assigns_courier i) ms"
    and "orders s i = Some ord"
  shows "pin_code ord = [] \<and> courierId ord = []
       \<and> fst (verifyOrderPin i [] s) = Inr True
       \<and> orders (snd (verifyOrderPin i [] s)) = (orders s)(i \<mapsto> ord\<lparr>status := DELIVERED\<rparr>)
       \<and> emitted (snd (verifyOrderPin i [] s))
           = emitted s @ [order_delivered i [] (restaurantId ord) (totalAmount ord)
                            (customerId ord)]"
proof -
  have "\<forall>ord. orders init i = Some ord \<longrightarrow> pin_code ord = [] \<and> courierId ord = []"
    by (simp add: init_def)
  from run_unassigned [OF this assms(2)] assms(1,3)
  have e: "pin_code ord = [] \<and> courierId ord = []" by simp
  with assms(3) show ?thesis
    by (simp add: service_defs)
qed

theorem verifyOrderPin_unassigned_witness:
  "fst (verifyOrderPin ''o1'' []
          (run [Msg_createOrder (sample_dto sample_items False) ''o1'', Msg_removeOrder ''o1''] init))
     = Inr True
   \<and> map_option status
        (orders (snd (verifyOrderPin ''o1'' []
          (run [Msg_createOrder (sample_dto sample_items False) ''o1'', Msg_removeOrder ''o1''] init)))
          ''o1'')
       = Some DELIVERED"
  using verifyOrderPin_unassigned
          [of "run [Msg_createOrder (sample_dto sample_items False) ''o1'', Msg_removeOrder ''o1''] init"
              "[Msg_createOrder (sample_dto sample_items False) ''o1'', Msg_removeOrder ''o1'']"
              "''o1''" "sample_order CANCELLED []"]
  by (simp add: createOrder_def removeOrder_def findOneOrder_def log_msg_def order_update_def
        order_create_def emit_def Let_def sample_defs js_simps)

subsection \<open>C8: the total of a new order\<close>



subsection \<open>C9: an empty list of items\<close>

text \<open>
  Claim C9, as amended. An empty list of items is accepted: it meets what the DTO asks
  of \<open>items\<close>, whatever the validation of a single item is, and \<open>createOrder\<close> itself
  checks nothing. With an empty list (and an unused id) an order without items is stored,
  its total the delivery fee (added to 0, which leaves a number as it is), or 0 with
  loyalty points, and \<open>order_created\<close> is emitted.
\<close>

theorem createOrder_empty_items_accepted:
  assumes "orders s newId = None" and "dto_items d = []"
  shows "items_valid validItem (dto_items d)
       \<and> fst (createOrder d newId s) = Inr newId
       \<and> map_option totalAmount (orders (snd (createOrder d newId s)) newId)
           = Some (if useLoyaltyPoints d then Num 0 else js_add (Num 0) (deliveryFee d))
       \<and> (is_number (deliveryFee d) \<longrightarrow> js_add (Num 0) (deliveryFee d) = deliveryFee d)
       \<and> map_option items (orders (snd (createOrder d newId s)) newId) = Some []
       \<and> emitted (snd (createOrder d newId s)) = emitted s @ [order_created d newId]"
  using assms
  by (simp add: service_defs items_valid_def is_number_add_0)

theorem createOrder_empty_items_accepted_witness:
  "fst (createOrder (sample_dto [] False) ''o1'' init) = Inr ''o1''
   \<and> map_option totalAmount (orders (snd (createOrder (sample_dto [] False) ''o1'' init)) ''o1'')
       = Some (Num 3)
   \<and> emitted (snd (createOrder (sample_dto [] False) ''o1'' init))
       = [order_created (sample_dto [] False) ''o1'']"
  using createOrder_empty_items_accepted [of init "''o1''" "sample_dto [] False"]
  by (simp add: sample_defs is_number_def is_double_numeral js_simps)

text \<open>On the empty store a call with no items creates an order and emits the event.\<close>

theorem createOrder_empty_items_not_rejected:
  "orders (snd (createOrder (sample_dto [] False) ''o1'' init)) ''o1'' \<noteq> None
   \<and> emitted (snd (createOrder (sample_dto [] False) ''o1'' init))
       = [order_created (sample_dto [] False) ''o1'']"
  by (simp add: service_defs sample_defs)

subsection \<open>C10: the generated PIN\<close>



end
